theory Spec2Isabelle
  imports Main
begin

section \<open>Python strings\<close>

text \<open>
  A Python \<open>str\<close> is modelled as a \<open>string\<close>: one \<open>char\<close> per code point, for the
  code points below 256, so that \<open>length\<close> is Python's \<open>len\<close>.
\<close>

definition apostrophe :: char where
  "apostrophe = CHR 0x27"

definition newline :: char where
  "newline = CHR 0x0A"

text \<open>\<open>str.lower()\<close> on the code points below 256: A-Z and the accented capitals
  U+00C0..U+00DE (without the multiplication sign U+00D7) map to the code point 32 above.\<close>

definition upper_chars :: string where
  "upper_chars = ''ABCDEFGHIJKLMNOPQRSTUVWXYZ'' @
     [CHR 0xC0, CHR 0xC1, CHR 0xC2, CHR 0xC3, CHR 0xC4, CHR 0xC5, CHR 0xC6, CHR 0xC7,
      CHR 0xC8, CHR 0xC9, CHR 0xCA, CHR 0xCB, CHR 0xCC, CHR 0xCD, CHR 0xCE, CHR 0xCF,
      CHR 0xD0, CHR 0xD1, CHR 0xD2, CHR 0xD3, CHR 0xD4, CHR 0xD5, CHR 0xD6,
      CHR 0xD8, CHR 0xD9, CHR 0xDA, CHR 0xDB, CHR 0xDC, CHR 0xDD, CHR 0xDE]"

definition lower_chars :: string where
  "lower_chars = ''abcdefghijklmnopqrstuvwxyz'' @
     [CHR 0xE0, CHR 0xE1, CHR 0xE2, CHR 0xE3, CHR 0xE4, CHR 0xE5, CHR 0xE6, CHR 0xE7,
      CHR 0xE8, CHR 0xE9, CHR 0xEA, CHR 0xEB, CHR 0xEC, CHR 0xED, CHR 0xEE, CHR 0xEF,
      CHR 0xF0, CHR 0xF1, CHR 0xF2, CHR 0xF3, CHR 0xF4, CHR 0xF5, CHR 0xF6,
      CHR 0xF8, CHR 0xF9, CHR 0xFA, CHR 0xFB, CHR 0xFC, CHR 0xFD, CHR 0xFE]"

definition lower_char :: "char \<Rightarrow> char" where
  "lower_char c = (case map_of (zip upper_chars lower_chars) c of Some l \<Rightarrow> l | None \<Rightarrow> c)"

definition lower :: "string \<Rightarrow> string" where
  "lower s = map lower_char s"

text \<open>\<open>str.isspace()\<close> on the code points below 256, as \<open>str.strip()\<close> uses it.\<close>

definition is_space :: "char \<Rightarrow> bool" where
  "is_space c =
     (let n = (of_char c :: nat)
      in (9 \<le> n \<and> n \<le> 13) \<or> (28 \<le> n \<and> n \<le> 32) \<or> n = 133 \<or> n = 160)"

definition strip :: "string \<Rightarrow> string" where
  "strip s = rev (dropWhile is_space (rev (dropWhile is_space s)))"

text \<open>\<open>needle in hay\<close> for strings: \<open>needle\<close> occurs as a contiguous substring.\<close>

fun starts_with :: "string \<Rightarrow> string \<Rightarrow> bool" where
  "starts_with [] hay = True"
| "starts_with (n # ns) [] = False"
| "starts_with (n # ns) (h # hs) = (n = h \<and> starts_with ns hs)"

fun contains :: "string \<Rightarrow> string \<Rightarrow> bool" where
  "contains needle [] = (needle = [])"
| "contains needle (h # hs) = (starts_with needle (h # hs) \<or> contains needle hs)"

text \<open>\<open>sep.join(parts)\<close>.\<close>

fun py_join :: "string \<Rightarrow> string list \<Rightarrow> string" where
  "py_join sep [] = []"
| "py_join sep [p] = p"
| "py_join sep (p # q # ps) = p @ sep @ py_join sep (q # ps)"

text \<open>\<open>s[:n]\<close>: a negative bound counts from the end, and bounds are clamped.\<close>

definition py_slice_to :: "string \<Rightarrow> int \<Rightarrow> string" where
  "py_slice_to s n = (if n < 0 then take (nat (int (length s) + n)) s else take (nat n) s)"

text \<open>\<open>str(n)\<close> for a natural number: its decimal digits.\<close>

definition digit_char :: "nat \<Rightarrow> char" where
  "digit_char d = ''0123456789'' ! d"

fun str_nat :: "nat \<Rightarrow> string" where
  "str_nat n = (if n < 10 then [digit_char n] else str_nat (n div 10) @ [digit_char (n mod 10)])"

declare str_nat.simps [simp del]

section \<open>The retrieval tool: query builder\<close>

text \<open>\<open>TextFileInfoProvider._build_search_query\<close>.\<close>

definition marker_terms :: "string list" where
  "marker_terms = [''insurance'', ''coverage'', ''liability'', ''property'']"

definition has_marker :: "string \<Rightarrow> bool" where
  "has_marker search_query = list_ex (\<lambda>term. contains term (lower search_query)) marker_terms"

definition build_search_query :: "string \<Rightarrow> string \<Rightarrow> string" where
  "build_search_query query section =
     (let search_parts = (if section \<noteq> [] then [section] else [])
                         @ (if query \<noteq> [] then [query] else [])
      in if search_parts \<noteq> [] then
           (let search_query = py_join '' '' search_parts
            in if \<not> has_marker search_query
               then search_query @ '' insurance coverage''
               else search_query)
         else [])"

section \<open>Faults, documents and the collaborators of the retrieval tool\<close>

text \<open>
  A raised exception is a value: its class and the text \<open>str(e)\<close> gives. Only
  \<open>Exception\<close> subclasses are modelled, the ones \<open>except Exception\<close> catches.
\<close>

datatype exn_class = ImportError | ValueError | TypeError | OverflowError | OtherException

datatype exn = Exn exn_class string

fun exn_str :: "exn \<Rightarrow> string" where
  "exn_str (Exn c msg) = msg"

text \<open>A chunk: \<open>Document.page_content\<close> and the metadata the tool attaches to it
  (the two constant entries \<open>type\<close> and \<open>content_type\<close> are left out).\<close>

record document =
  page_content :: string
  doc_source :: string
  chunk_id :: nat
  chunk_size :: nat
  doc_keywords :: "string list"

text \<open>A vector index: the one built at construction from the default document, or one
  built inside a call from the chunks of a custom file.\<close>

datatype store = Prebuilt "document list" | Throwaway "document list"

text \<open>The calls the tool makes to the vector-store library, in order.\<close>

datatype event = BuildIndex "document list" | Search store int string

text \<open>
  What the tool does not compute itself is a parameter: the file system and \<open>os.path\<close>,
  the text splitter, the construction of an index (which embeds the chunks and may raise)
  and the retriever's nearest-neighbour search with its \<open>k\<close>.
\<close>

record world =
  isabs :: "string \<Rightarrow> bool"
  project_root :: string
  path_join :: "string \<Rightarrow> string \<Rightarrow> string"
  path_exists :: "string \<Rightarrow> bool"
  read_file :: "string \<Rightarrow> exn + string"
  split_text :: "string \<Rightarrow> exn + string list"
  from_documents :: "document list \<Rightarrow> exn option"
  search :: "store \<Rightarrow> int \<Rightarrow> string \<Rightarrow> exn + document list"

text \<open>The tool instance: \<open>self.vector_store\<close> holds the chunks of the pre-built index,
  or is \<open>None\<close> when initialisation did not build one.\<close>

record provider =
  vector_store :: "document list option"

text \<open>\<open>TextFileInfoProvider._extract_keywords\<close>.\<close>

definition insurance_keywords :: "string list" where
  "insurance_keywords =
     [''excess'', ''specialty lines'', ''surplus lines'', ''commercial property'',
      ''liability'', ''coverage'', ''programs'', ''contractors'', ''manufacturing'',
      ''property damage'', ''bodily injury'', ''professional liability'',
      ''workers compensation'', ''cyber liability'', ''general liability'',
      ''auto liability'', ''umbrella'', ''crime'', ''equipment breakdown'',
      ''inland marine'', ''builders risk'', ''vacant building'']"

definition extract_keywords :: "string \<Rightarrow> string list" where
  "extract_keywords text =
     (let text_lower = lower text
      in filter (\<lambda>keyword. contains keyword text_lower) insurance_keywords)"

text \<open>\<open>TextFileInfoProvider._create_documents_from_content\<close>: a fault of the splitter
  is logged and gives the empty list.\<close>

definition create_documents_from_content :: "world \<Rightarrow> string \<Rightarrow> string \<Rightarrow> document list" where
  "create_documents_from_content w content source_path =
     (case split_text w content of
        Inl e \<Rightarrow> []
      | Inr doc_chunks \<Rightarrow>
          map (\<lambda>(i, chunk). \<lparr>page_content = chunk, doc_source = source_path, chunk_id = i,
                              chunk_size = length chunk, doc_keywords = extract_keywords chunk\<rparr>)
              (enumerate 0 doc_chunks))"

section \<open>The retrieval tool: response assembler\<close>

text \<open>\<open>TextFileInfoProvider._format_rag_results\<close>. The header, the section header of the
  \<open>i\<close>-th result (0-based) and the footer are the source's f-strings.\<close>

definition header :: "string \<Rightarrow> string" where
  "header query = ''Found relevant information for '' @ [apostrophe] @ query @ [apostrophe]
                  @ '' in excess and specialty lines documentation:'' @ [newline, newline]"

definition section_header :: "nat \<Rightarrow> string" where
  "section_header i = ''--- Section '' @ str_nat (i + 1) @ '' ---'' @ [newline]"

definition footer :: "string list \<Rightarrow> document list \<Rightarrow> string" where
  "footer combined_content results =
     (if length results > 1
      then [newline, newline] @ ''[Retrieved '' @ str_nat (length combined_content)
           @ '' relevant sections from '' @ str_nat (length results) @ '' total matches]''
      else [])"

text \<open>The loop over \<open>enumerate(results)\<close>: \<open>i\<close> is the index of the next result,
  \<open>total_chars\<close> the running total; the value is what the loop appends to
  \<open>combined_content\<close> from there on.\<close>

fun format_loop :: "int \<Rightarrow> nat \<Rightarrow> int \<Rightarrow> document list \<Rightarrow> string list" where
  "format_loop max_chars i total_chars [] = []"
| "format_loop max_chars i total_chars (doc # rest) =
     (let content = strip (page_content doc);
          section_content = section_header i @ content
      in if total_chars + int (length section_content) + 2 > max_chars then
           (let remaining_chars = max_chars - total_chars - 2
            in if remaining_chars > 100
               then [section_header i @ py_slice_to content (remaining_chars - 20) @ ''...'']
               else [])
         else section_content
              # format_loop max_chars (i + 1) (total_chars + int (length section_content) + 2) rest)"

definition format_rag_results :: "document list \<Rightarrow> string \<Rightarrow> int \<Rightarrow> string" where
  "format_rag_results results query max_chars =
     (if results = [] then ''No relevant information found.''
      else
        (let response = header query;
             combined_content = format_loop max_chars 0 (int (length response)) results
         in response @ py_join [newline, newline] combined_content
            @ footer combined_content results))"

section \<open>The retrieval tool: entry point\<close>

text \<open>The argument mapping at the types the tool documents; \<open>None\<close> is an absent key.\<close>

record args =
  arg_file_path :: "string option"
  arg_query :: "string option"
  arg_section :: "string option"
  arg_max_chars :: "int option"
  arg_k :: "int option"

text \<open>\<open>args.get(key, default)\<close> on such a mapping.\<close>

definition arg_get :: "'a option \<Rightarrow> 'a \<Rightarrow> 'a" where
  "arg_get entry dflt = (case entry of None \<Rightarrow> dflt | Some v \<Rightarrow> v)"

definition default_file_path :: string where
  "default_file_path = ''data/excess_specialty_lines_info.txt''"

text \<open>The body of the \<open>try\<close> block of \<open>_query_custom_file\<close>: the value returned or the
  exception raised, with the calls made to the vector-store library.\<close>

definition query_custom_body ::
  "world \<Rightarrow> string \<Rightarrow> string \<Rightarrow> string \<Rightarrow> int \<Rightarrow> (exn + string) \<times> event list" where
  "query_custom_body w file_path0 query section max_chars =
     (let file_path = (if \<not> isabs w file_path0 then path_join w (project_root w) file_path0
                       else file_path0)
      in if \<not> path_exists w file_path
         then (Inr (''Error: File not found at path: '' @ file_path), [])
         else
           (case read_file w file_path of
              Inl e \<Rightarrow> (Inl e, [])
            | Inr content \<Rightarrow>
                (let documents = create_documents_from_content w content file_path
                 in if documents = []
                    then (Inr (''Error: Could not process content from '' @ file_path), [])
                    else
                      (case from_documents w documents of
                         Some e \<Rightarrow> (Inl e, [BuildIndex documents])
                       | None \<Rightarrow>
                           (let built = build_search_query query section;
                                search_query = (if built = [] then ''information content''
                                                else built);
                                calls = [BuildIndex documents,
                                         Search (Throwaway documents) 4 search_query]
                            in case search w (Throwaway documents) 4 search_query of
                                 Inl e \<Rightarrow> (Inl e, calls)
                               | Inr results \<Rightarrow>
                                   (if results = []
                                    then (Inr (''Content from '' @ file_path @ '':''
                                               @ [newline, newline]
                                               @ py_slice_to content max_chars), calls)
                                    else (Inr (format_rag_results results search_query
                                                 max_chars), calls)))))))"

text \<open>\<open>TextFileInfoProvider._query_custom_file\<close>: the \<open>except Exception\<close> clause turns a
  fault of the body into a string.\<close>

definition query_custom_file ::
  "world \<Rightarrow> string \<Rightarrow> string \<Rightarrow> string \<Rightarrow> int \<Rightarrow> (exn + string) \<times> event list" where
  "query_custom_file w file_path query section max_chars =
     (case query_custom_body w file_path query section max_chars of
        (Inl e, calls) \<Rightarrow> (Inr (''Error reading file: '' @ exn_str e), calls)
      | (Inr text, calls) \<Rightarrow> (Inr text, calls))"

text \<open>The \<open>try\<close> block of \<open>async_invoke\<close> on the pre-built index.\<close>

definition default_body ::
  "world \<Rightarrow> document list \<Rightarrow> string \<Rightarrow> string \<Rightarrow> int \<Rightarrow> int \<Rightarrow> (exn + string) \<times> event list" where
  "default_body w indexed query section max_chars k =
     (let built = build_search_query query section;
          search_query = (if built = []
                          then ''excess specialty lines insurance coverage programs''
                          else built);
          calls = [Search (Prebuilt indexed) k search_query]
      in case search w (Prebuilt indexed) k search_query of
           Inl e \<Rightarrow> (Inl e, calls)
         | Inr results \<Rightarrow>
             (if results = []
              then (Inr (''No relevant information found for query: '' @ [apostrophe]
                         @ search_query @ [apostrophe]), calls)
              else (Inr (format_rag_results results search_query max_chars), calls)))"

text \<open>\<open>TextFileInfoProvider.async_invoke\<close>. \<open>Inl\<close> in the result would be an exception
  that leaves the entry point; the steps outside the two \<open>try\<close> blocks (reading the
  arguments, comparing the path, testing the index) raise nothing.\<close>

definition provider_async_invoke :: "world \<Rightarrow> provider \<Rightarrow> args \<Rightarrow> (exn + string) \<times> event list" where
  "provider_async_invoke w self a =
     (let file_path = arg_file_path a;
          query = arg_get (arg_query a) [];
          section = arg_get (arg_section a) [];
          max_chars = arg_get (arg_max_chars a) 4000;
          k = arg_get (arg_k a) 4
      in if (case file_path of None \<Rightarrow> False
             | Some p \<Rightarrow> p \<noteq> [] \<and> p \<noteq> default_file_path)
         then query_custom_file w (arg_get file_path []) query section max_chars
         else
           (case vector_store self of
              None \<Rightarrow>
                (Inr (''Error: Vector store not initialized. Please check the ''
                      @ ''excess_specialty_lines_info.txt file exists.''), [])
            | Some indexed \<Rightarrow>
                (case default_body w indexed query section max_chars k of
                   (Inl e, calls) \<Rightarrow>
                     (Inr (''Error retrieving information: '' @ exn_str e), calls)
                 | (Inr text, calls) \<Rightarrow> (Inr text, calls))))"

section \<open>Python values of the quote tool's arguments\<close>

text \<open>
  The values an argument can take: \<open>None\<close>, booleans, integers, floats and strings.
  A finite float \<open>Finite m e\<close> is \<open>m * 2 ^ e\<close>.
\<close>

datatype pyfloat = Finite int int | PosInf | NegInf | NaN

datatype pyval = PNone | PBool bool | PInt int | PFloat pyfloat | PStr string

fun truthy :: "pyval \<Rightarrow> bool" where
  "truthy PNone = False"
| "truthy (PBool b) = b"
| "truthy (PInt n) = (n \<noteq> 0)"
| "truthy (PFloat (Finite m e)) = (m \<noteq> 0)"
| "truthy (PFloat f) = True"
| "truthy (PStr s) = (s \<noteq> [])"

text \<open>\<open>isinstance(value, int)\<close>: \<open>bool\<close> is a subclass of \<open>int\<close>.\<close>

fun isinstance_int :: "pyval \<Rightarrow> bool" where
  "isinstance_int (PBool b) = True"
| "isinstance_int (PInt n) = True"
| "isinstance_int v = False"

fun isinstance_str :: "pyval \<Rightarrow> bool" where
  "isinstance_str (PStr s) = True"
| "isinstance_str v = False"

text \<open>\<open>args.get(key)\<close> and \<open>args.get(key, default)\<close>.\<close>

definition dict_get :: "(string \<rightharpoonup> pyval) \<Rightarrow> string \<Rightarrow> pyval" where
  "dict_get d key = (case d key of None \<Rightarrow> PNone | Some v \<Rightarrow> v)"

definition dict_get_default :: "(string \<rightharpoonup> pyval) \<Rightarrow> string \<Rightarrow> pyval \<Rightarrow> pyval" where
  "dict_get_default d key dflt = (case d key of None \<Rightarrow> dflt | Some v \<Rightarrow> v)"

text \<open>\<open>str(n)\<close> for an integer.\<close>

definition str_int :: "int \<Rightarrow> string" where
  "str_int n = (if n < 0 then ''-'' @ str_nat (nat (- n)) else str_nat (nat n))"

text \<open>\<open>repr(s)\<close> of a string, which the message of a failed \<open>int(s)\<close> quotes.\<close>

definition hex_digit :: "nat \<Rightarrow> char" where
  "hex_digit d = ''0123456789abcdef'' ! d"

definition printable :: "char \<Rightarrow> bool" where
  "printable c =
     (let n = (of_char c :: nat)
      in (32 \<le> n \<and> n \<le> 126) \<or> (161 \<le> n \<and> n \<noteq> 173))"

definition repr_char :: "char \<Rightarrow> char \<Rightarrow> string" where
  "repr_char quote c =
     (if c = quote \<or> c = CHR 0x5C then [CHR 0x5C, c]
      else if c = CHR 0x09 then [CHR 0x5C, CHR ''t'']
      else if c = CHR 0x0A then [CHR 0x5C, CHR ''n'']
      else if c = CHR 0x0D then [CHR 0x5C, CHR ''r'']
      else if printable c then [c]
      else [CHR 0x5C, CHR ''x'', hex_digit (of_char c div 16), hex_digit (of_char c mod 16)])"

definition py_repr :: "string \<Rightarrow> string" where
  "py_repr s =
     (let quote = (if CHR 0x27 \<in> set s \<and> CHR 0x22 \<notin> set s then CHR 0x22 else CHR 0x27)
      in [quote] @ concat (map (repr_char quote) s) @ [quote])"

text \<open>
  \<open>int(s)\<close> for a string, base 10: surrounding whitespace is dropped, one sign is allowed,
  then decimal digits, where single underscores may stand between digits. (The
  interpreter's limit on the number of digits is not modelled.)
\<close>

definition is_digit :: "char \<Rightarrow> bool" where
  "is_digit c = (c \<in> set ''0123456789'')"

definition digit_val :: "char \<Rightarrow> nat" where
  "digit_val c = of_char c - 48"

fun parse_digits :: "nat \<Rightarrow> string \<Rightarrow> nat option" where
  "parse_digits acc [] = Some acc"
| "parse_digits acc [c] = (if is_digit c then Some (acc * 10 + digit_val c) else None)"
| "parse_digits acc (c # d # cs) =
     (if is_digit c then parse_digits (acc * 10 + digit_val c) (d # cs)
      else if c = CHR ''_'' \<and> is_digit d then parse_digits acc (d # cs)
      else None)"

definition parse_unsigned :: "string \<Rightarrow> nat option" where
  "parse_unsigned body =
     (case body of [] \<Rightarrow> None
      | c # cs \<Rightarrow> if is_digit c then parse_digits 0 body else None)"

definition invalid_literal :: "string \<Rightarrow> exn" where
  "invalid_literal s = Exn ValueError (''invalid literal for int() with base 10: '' @ py_repr s)"

definition py_int_str :: "string \<Rightarrow> exn + int" where
  "py_int_str s =
     (case strip s of
        [] \<Rightarrow> Inl (invalid_literal s)
      | c # cs \<Rightarrow>
          (if c = CHR ''-'' then
             (case parse_unsigned cs of None \<Rightarrow> Inl (invalid_literal s)
              | Some n \<Rightarrow> Inr (- int n))
           else
             (case parse_unsigned (if c = CHR ''+'' then cs else c # cs) of
                None \<Rightarrow> Inl (invalid_literal s)
              | Some n \<Rightarrow> Inr (int n))))"

text \<open>\<open>int(v)\<close> for any value: a float is truncated towards zero.\<close>

fun py_int :: "pyval \<Rightarrow> exn + int" where
  "py_int PNone =
     Inl (Exn TypeError (''int() argument must be a string, a bytes-like object or a real ''
                         @ ''number, not '' @ [CHR 0x27] @ ''NoneType'' @ [CHR 0x27]))"
| "py_int (PBool b) = Inr (if b then 1 else 0)"
| "py_int (PInt n) = Inr n"
| "py_int (PFloat (Finite m e)) =
     Inr (if 0 \<le> e then m * 2 ^ nat e else sgn m * (\<bar>m\<bar> div 2 ^ nat (- e)))"
| "py_int (PFloat NaN) = Inl (Exn ValueError ''cannot convert float NaN to integer'')"
| "py_int (PFloat f) = Inl (Exn OverflowError ''cannot convert float infinity to integer'')"
| "py_int (PStr s) = py_int_str s"

section \<open>The quote tool\<close>

definition DEFAULT_SQUARE_FOOTAGE :: int where
  "DEFAULT_SQUARE_FOOTAGE = 10000"

definition DEFAULT_DEDUCTIBLE :: int where
  "DEFAULT_DEDUCTIBLE = 1000"

definition RISK_TYPE :: string where
  "RISK_TYPE = ''General Business Risk''"

definition LOCATION_REFERENCE :: string where
  "LOCATION_REFERENCE = ''LOC-001''"

text \<open>\<open>s.replace(c, "")\<close> for a single character \<open>c\<close>.\<close>

definition remove_char :: "char \<Rightarrow> string \<Rightarrow> string" where
  "remove_char c s = filter (\<lambda>x. x \<noteq> c) s"

text \<open>\<open>McpQuoteGenerator._parse_amount\<close>; the source's default for \<open>default\<close> is 1000000.\<close>

definition parse_amount :: "pyval \<Rightarrow> int \<Rightarrow> exn + pyval" where
  "parse_amount v dflt =
     (if isinstance_int v then Inr v
      else case v of
             PStr s \<Rightarrow>
               (case py_int_str (remove_char CHR '','' (remove_char CHR ''$'' s)) of
                  Inl e \<Rightarrow> Inl e
                | Inr n \<Rightarrow> Inr (PInt n))
           | _ \<Rightarrow> Inr (PInt dflt))"

definition parse_amount_default :: int where
  "parse_amount_default = 1000000"

text \<open>The request the tool sends: the fields of the nested dictionary.\<close>

record quote_request =
  created_date :: string
  expiration_date :: string
  quote_status :: string
  address :: pyval
  property_type :: pyval
  square_footage :: int
  line_type :: pyval
  policy_limit :: pyval
  deductible :: pyval
  risk_type :: string
  location_reference :: string
  risk_description :: string
  coverage_type :: pyval
  coverage_limit :: pyval

text \<open>
  The collaborators of the quote tool: the import of the client library, the client's
  constructor, \<open>get_tools\<close> (the names of the tools the server offers), the two dates
  \<open>datetime.now()\<close> formats, the call of a tool (giving \<open>str\<close> of its result) and the
  interpreter's rendering of a float.
\<close>

record mcp =
  import_client :: "exn option"
  new_client :: "string \<Rightarrow> exn option"
  get_tools :: "exn + string list"
  today :: string
  today_plus_term :: string
  ainvoke :: "string \<Rightarrow> quote_request \<Rightarrow> exn + string"
  float_str :: "pyfloat \<Rightarrow> string"

datatype rpc_event = NewClient string | GetTools | ToolInvoke string quote_request

text \<open>\<open>str(v)\<close>, as an f-string renders a value.\<close>

fun py_str :: "mcp \<Rightarrow> pyval \<Rightarrow> string" where
  "py_str m PNone = ''None''"
| "py_str m (PBool b) = (if b then ''True'' else ''False'')"
| "py_str m (PInt n) = str_int n"
| "py_str m (PFloat f) = float_str m f"
| "py_str m (PStr s) = s"

text \<open>The cross mark U+274C that opens the tool's error messages, as its UTF-8 bytes.\<close>

definition cross_mark :: string where
  "cross_mark = [CHR 0xE2, CHR 0x9D, CHR 0x8C]"

definition required_params :: "string list" where
  "required_params = [''business_type'', ''coverage_type'', ''coverage_limit'', ''location'']"

definition missing_params :: "(string \<rightharpoonup> pyval) \<Rightarrow> string list" where
  "missing_params a = filter (\<lambda>param. \<not> truthy (dict_get a param)) required_params"

text \<open>The dictionary literal \<open>quote_request\<close>: its entries are evaluated in order, so
  the first conversion that raises decides the exception.\<close>

definition build_quote_request :: "mcp \<Rightarrow> (string \<rightharpoonup> pyval) \<Rightarrow> exn + quote_request" where
  "build_quote_request m a =
     (case py_int (dict_get_default a ''square_footage'' (PInt DEFAULT_SQUARE_FOOTAGE)) of
        Inl e \<Rightarrow> Inl e
      | Inr footage \<Rightarrow>
     (case parse_amount (dict_get a ''coverage_limit'') parse_amount_default of
        Inl e \<Rightarrow> Inl e
      | Inr limit \<Rightarrow>
     (case parse_amount (dict_get a ''deductible'') DEFAULT_DEDUCTIBLE of
        Inl e \<Rightarrow> Inl e
      | Inr deduct \<Rightarrow>
     (case parse_amount (dict_get a ''coverage_limit'') parse_amount_default of
        Inl e \<Rightarrow> Inl e
      | Inr cov_limit \<Rightarrow>
          Inr \<lparr>created_date = today m,
               expiration_date = today_plus_term m,
               quote_status = ''Active'',
               address = dict_get_default a ''location'' (PStr ''Unknown Location''),
               property_type = dict_get_default a ''business_type'' (PStr ''Commercial Building''),
               square_footage = footage,
               line_type = dict_get_default a ''coverage_type'' (PStr ''Property Insurance''),
               policy_limit = limit,
               deductible = deduct,
               risk_type = RISK_TYPE,
               location_reference = LOCATION_REFERENCE,
               risk_description =
                 py_str m (dict_get_default a ''coverage_type'' (PStr ''Property''))
                 @ '' risk for ''
                 @ py_str m (dict_get_default a ''business_type'' (PStr ''business''))
                 @ '' operation'',
               coverage_type = dict_get_default a ''coverage_type'' (PStr ''Property''),
               coverage_limit = cov_limit\<rparr>))))"

definition is_quote_tool :: "string \<Rightarrow> bool" where
  "is_quote_tool name = (contains ''quote'' (lower name) \<and> contains ''create'' (lower name))"

text \<open>The \<open>try\<close> block of \<open>McpQuoteGenerator.async_invoke\<close>, with the calls made to the
  client library; \<open>path\<close> is \<open>self.mcp_server_path\<close>.\<close>

definition quote_body ::
  "mcp \<Rightarrow> string \<Rightarrow> (string \<rightharpoonup> pyval) \<Rightarrow> (exn + string) \<times> rpc_event list" where
  "quote_body m path a =
     (case import_client m of
        Some e \<Rightarrow> (Inl e, [])
      | None \<Rightarrow>
          (if missing_params a \<noteq> []
           then (Inr (cross_mark @ '' Error: Missing required parameters: ''
                      @ py_join '', '' (missing_params a)), [])
           else
             (case new_client m path of
                Some e \<Rightarrow> (Inl e, [NewClient path])
              | None \<Rightarrow>
                  (case get_tools m of
                     Inl e \<Rightarrow> (Inl e, [NewClient path, GetTools])
                   | Inr tools \<Rightarrow>
                       (if tools = []
                        then (Inr (cross_mark @ '' Error: Quote generation service is not ''
                                   @ ''available. Please ensure the MCP server is running.''),
                              [NewClient path, GetTools])
                        else
                          (case find is_quote_tool tools of
                             None \<Rightarrow>
                               (Inr (cross_mark @ '' Error: Quote creation tool not found in ''
                                     @ ''MCP server. Available tools: ''
                                     @ py_join '', '' tools),
                                [NewClient path, GetTools])
                           | Some quote_tool \<Rightarrow>
                               (case build_quote_request m a of
                                  Inl e \<Rightarrow> (Inl e, [NewClient path, GetTools])
                                | Inr request \<Rightarrow>
                                    (ainvoke m quote_tool request,
                                     [NewClient path, GetTools,
                                      ToolInvoke quote_tool request]))))))))"

text \<open>\<open>McpQuoteGenerator.async_invoke\<close>: the two \<open>except\<close> clauses turn a fault of the
  body into a string. \<open>Inl\<close> in the result would be an exception that leaves the entry
  point.\<close>

definition quote_async_invoke ::
  "mcp \<Rightarrow> string \<Rightarrow> (string \<rightharpoonup> pyval) \<Rightarrow> (exn + string) \<times> rpc_event list" where
  "quote_async_invoke m path a =
     (case quote_body m path a of
        (Inl (Exn c msg), calls) \<Rightarrow>
          (if c = ImportError
           then (Inr (cross_mark @ '' Error: MCP client not available. ''
                      @ ''Please install langchain-mcp-adapters.''), calls)
           else (Inr (cross_mark @ '' Error generating quote: '' @ msg @ [newline, newline]
                      @ ''Please ensure the MCP quote server is configured correctly.''),
                 calls))
      | (Inr text, calls) \<Rightarrow> (Inr text, calls))"

section \<open>Concrete collaborators for evaluation\<close>

text \<open>A small world for the retrieval tool: one custom file of six lines under the
  project root, a splitter that makes one chunk per line, and a retriever that returns the
  first \<open>k\<close> chunks of the index it is given.\<close>

fun split_on_newline :: "string \<Rightarrow> string \<Rightarrow> string list" where
  "split_on_newline cur [] = [cur]"
| "split_on_newline cur (c # cs) =
     (if c = CHR 0x0A then cur # split_on_newline [] cs else split_on_newline (cur @ [c]) cs)"

definition demo_content :: string where
  "demo_content = py_join [newline]
     [''Fire damage is insured.'', ''Flood is excluded.'', ''Cyber liability is optional.'',
      ''Umbrella limits apply.'', ''Crime is optional.'', ''Builders risk on request.'']"

definition stored :: "store \<Rightarrow> document list" where
  "stored st = (case st of Prebuilt docs \<Rightarrow> docs | Throwaway docs \<Rightarrow> docs)"

definition demo_world :: world where
  "demo_world =
     \<lparr>isabs = (\<lambda>p. starts_with ''/'' p),
      project_root = ''/app'',
      path_join = (\<lambda>a b. a @ ''/'' @ b),
      path_exists = (\<lambda>p. p = ''/app/notes.txt''),
      read_file = (\<lambda>p. Inr demo_content),
      split_text = (\<lambda>content. Inr (split_on_newline [] content)),
      from_documents = (\<lambda>docs. None),
      search = (\<lambda>st k q. Inr (take (nat k) (stored st)))\<rparr>"

definition demo_docs :: "document list" where
  "demo_docs = create_documents_from_content demo_world demo_content ''/app/notes.txt''"

definition demo_index :: "document list" where
  "demo_index =
     [\<lparr>page_content = ''Excess liability programs.'', doc_source = ''/app/data/info.txt'',
       chunk_id = 0, chunk_size = 26, doc_keywords = [''excess'', ''liability'', ''programs'']\<rparr>,
      \<lparr>page_content = ''Flood is excluded.'', doc_source = ''/app/data/info.txt'',
       chunk_id = 1, chunk_size = 18, doc_keywords = []\<rparr>]"

definition demo_provider :: provider where
  "demo_provider = \<lparr>vector_store = Some demo_index\<rparr>"

definition no_args :: args where
  "no_args = \<lparr>arg_file_path = None, arg_query = None, arg_section = None,
              arg_max_chars = None, arg_k = None\<rparr>"

text \<open>The same world with a retriever that finds nothing, and with one that fails.\<close>

definition empty_world :: world where
  "empty_world = demo_world\<lparr>search := (\<lambda>st k q. Inr [])\<rparr>"

definition failing_world :: world where
  "failing_world =
     demo_world\<lparr>search := (\<lambda>st k q. Inl (Exn OtherException ''embedding service unreachable''))\<rparr>"

text \<open>A quote server that offers two tools and answers every request.\<close>

definition demo_mcp :: mcp where
  "demo_mcp =
     \<lparr>import_client = None,
      new_client = (\<lambda>path. None),
      get_tools = Inr [''health_check'', ''create_quote''],
      today = ''2026-01-01'',
      today_plus_term = ''2027-01-01'',
      ainvoke = (\<lambda>name request. Inr ''quote Q-1 created''),
      float_str = (\<lambda>f. ''2.5'')\<rparr>"

definition demo_path :: string where
  "demo_path = ''/srv/quote/index.js''"

text \<open>Arguments of a well-formed quote request.\<close>

definition bakery :: "string \<rightharpoonup> pyval" where
  "bakery = map_of [(''business_type'', PStr ''Bakery''),
                    (''coverage_type'', PStr ''General Liability''),
                    (''coverage_limit'', PStr ''$2,000,000''),
                    (''location'', PStr ''Oslo'')]"

text \<open>The same server when the transport cannot be started.\<close>

definition offline_mcp :: mcp where
  "offline_mcp = demo_mcp\<lparr>get_tools := Inl (Exn OtherException ''Connection closed'')\<rparr>"

section \<open>Predicates used in the statements\<close>

text \<open>Every error message of the quote tool opens with the cross mark and \<open>Error\<close>.\<close>

definition error_text :: "string \<Rightarrow> bool" where
  "error_text s = starts_with (cross_mark @ '' Error'') s"

section \<open>Evaluation and routing lemmas\<close>

lemmas string_eval = lower_def lower_char_def upper_chars_def lower_chars_def strip_def
  is_space_def py_slice_to_def digit_char_def apostrophe_def newline_def

lemma build_search_query_both:
  assumes "section \<noteq> []" and "query \<noteq> []"
  shows "build_search_query query section =
           (if has_marker (section @ '' '' @ query) then section @ '' '' @ query
            else section @ '' '' @ query @ '' insurance coverage'')"
  using assms by (simp add: build_search_query_def)

lemma build_search_query_empty: "build_search_query [] [] = []"
  by (simp add: build_search_query_def)

lemma fire_coverages: "build_search_query ''fire'' ''coverages'' = ''coverages fire''"
  by (simp add: build_search_query_def has_marker_def marker_terms_def string_eval)

lemma coverage_in_coverages: "contains ''coverage'' (lower ''coverages fire'')"
  by (simp add: string_eval)

lemma programs_fire_no_marker: "\<not> has_marker ''programs fire''"
  by (simp add: has_marker_def marker_terms_def string_eval)

lemma fire_query: "build_search_query ''fire'' [] = ''fire insurance coverage''"
  by (simp add: build_search_query_def has_marker_def marker_terms_def string_eval)

lemma custom_route:
  assumes "arg_file_path a = Some p" and "p \<noteq> []" and "p \<noteq> default_file_path"
  shows "provider_async_invoke w self a =
           query_custom_file w p (arg_get (arg_query a) []) (arg_get (arg_section a) [])
             (arg_get (arg_max_chars a) 4000)"
  using assms by (simp add: provider_async_invoke_def arg_get_def)

lemma default_route:
  assumes "arg_file_path a = None \<or> arg_file_path a = Some []
           \<or> arg_file_path a = Some default_file_path"
    and "vector_store self = Some indexed"
  shows "provider_async_invoke w self a =
           (case default_body w indexed (arg_get (arg_query a) []) (arg_get (arg_section a) [])
                   (arg_get (arg_max_chars a) 4000) (arg_get (arg_k a) 4) of
              (Inl e, calls) \<Rightarrow> (Inr (''Error retrieving information: '' @ exn_str e), calls)
            | (Inr text, calls) \<Rightarrow> (Inr text, calls))"
  using assms by (auto simp add: provider_async_invoke_def)

lemma default_body_calls:
  "snd (default_body w indexed query section max_chars k) =
     [Search (Prebuilt indexed) k
        (if build_search_query query section = []
         then ''excess specialty lines insurance coverage programs''
         else build_search_query query section)]"
  by (simp add: default_body_def Let_def split: sum.splits)

lemma default_route_calls:
  assumes "arg_file_path a = None \<or> arg_file_path a = Some []
           \<or> arg_file_path a = Some default_file_path"
    and "vector_store self = Some indexed"
  shows "snd (provider_async_invoke w self a) =
           snd (default_body w indexed (arg_get (arg_query a) []) (arg_get (arg_section a) [])
                  (arg_get (arg_max_chars a) 4000) (arg_get (arg_k a) 4))"
  by (simp add: default_route [OF assms] split: prod.splits sum.splits)

lemma custom_file_calls:
  "snd (query_custom_file w p query section max_chars) =
     snd (query_custom_body w p query section max_chars)"
  by (simp add: query_custom_file_def split: prod.splits sum.splits)


lemma custom_body_built:
  assumes "fp = (if \<not> isabs w p then path_join w (project_root w) p else p)"
    and "path_exists w fp" and "read_file w fp = Inr content"
    and "docs = create_documents_from_content w content fp" and "docs \<noteq> []"
    and "from_documents w docs = None"
  shows "snd (query_custom_body w p query section max_chars) =
           [BuildIndex docs,
            Search (Throwaway docs) 4
              (if build_search_query query section = [] then ''information content''
               else build_search_query query section)]"
  using assms by (simp add: query_custom_body_def Let_def split: sum.splits)



lemma split_on_newline_nonempty: "split_on_newline cur s \<noteq> []"
  by (induction s arbitrary: cur) auto

lemma demo_docs_nonempty: "demo_docs \<noteq> []"
  by (simp add: demo_docs_def create_documents_from_content_def demo_world_def
      split_on_newline_nonempty enumerate_eq_zip)

lemma demo_file:
  assumes "w = demo_world \<or> w = empty_world \<or> w = failing_world"
  shows "''/app/notes.txt'' = (if \<not> isabs w ''notes.txt''
          then path_join w (project_root w) ''notes.txt'' else ''notes.txt'')"
    and "path_exists w ''/app/notes.txt''"
    and "read_file w ''/app/notes.txt'' = Inr demo_content"
    and "demo_docs = create_documents_from_content w demo_content ''/app/notes.txt''"
    and "from_documents w demo_docs = None"
  using assms
  by (auto simp add: demo_docs_def create_documents_from_content_def demo_world_def
      empty_world_def failing_world_def)

lemma custom_body_search_fault:
  assumes "fp = (if \<not> isabs w p then path_join w (project_root w) p else p)"
    and "path_exists w fp" and "read_file w fp = Inr content"
    and "docs = create_documents_from_content w content fp" and "docs \<noteq> []"
    and "from_documents w docs = None"
    and "search w (Throwaway docs) 4
           (if build_search_query query section = [] then ''information content''
            else build_search_query query section) = Inl e"
  shows "fst (query_custom_body w p query section max_chars) = Inl e"
  using assms by (simp add: query_custom_body_def Let_def)

lemma demo_custom_calls:
  assumes "w = demo_world \<or> w = empty_world \<or> w = failing_world"
  shows "snd (query_custom_body w ''notes.txt'' query section max_chars) =
           [BuildIndex demo_docs,
            Search (Throwaway demo_docs) 4
              (if build_search_query query section = [] then ''information content''
               else build_search_query query section)]"
  using demo_file [OF assms] demo_docs_nonempty
  by (intro custom_body_built [where fp = "''/app/notes.txt''" and content = demo_content])

section \<open>The custom-file path and the requested k\<close>

text \<open>
  C1. The entry point reads \<open>k\<close> from the arguments and the default path hands it to the
  retriever, but \<open>_query_custom_file\<close> does not receive it and searches with the constant 4.
  Here the caller asks for \<open>k = 7\<close> on a custom file of six chunks: the one search that is
  made asks for 4.
\<close>

theorem custom_file_search_ignores_requested_k:
  "snd (provider_async_invoke demo_world demo_provider
          \<lparr>arg_file_path = Some ''notes.txt'', arg_query = Some ''fire'', arg_section = None,
           arg_max_chars = None, arg_k = Some 7\<rparr>)
   = [BuildIndex demo_docs, Search (Throwaway demo_docs) 4 ''fire insurance coverage'']"
  by (simp add: custom_route default_file_path_def custom_file_calls demo_custom_calls
      arg_get_def fire_query)

section \<open>The query builder\<close>

text \<open>For query \<open>fire\<close> and section \<open>coverages\<close> the builder does not return the string
  with the suffix.\<close>

theorem build_query_fire_coverages_counterexample:
  "build_search_query ''fire'' ''coverages'' \<noteq> ''coverages fire insurance coverage''"
  by (simp add: fire_coverages)

text \<open>
  C2, as amended. For query \<open>fire\<close> and section \<open>coverages\<close> the builder returns
  \<open>coverages fire\<close>: the parts are joined section first with one space, and nothing is
  appended, because the marker \<open>coverage\<close> is a substring of \<open>coverages\<close>. In general, for
  a non-empty section and query, the suffix is appended exactly when no marker term is a
  substring of the lower-cased joined string.
\<close>

theorem build_query_fire_coverages:
  "build_search_query ''fire'' ''coverages'' = ''coverages fire''
   \<and> contains ''coverage'' (lower ''coverages fire'')
   \<and> (section \<noteq> [] \<longrightarrow> query \<noteq> [] \<longrightarrow>
        build_search_query query section =
          (if has_marker (section @ '' '' @ query) then section @ '' '' @ query
           else section @ '' '' @ query @ '' insurance coverage''))"
  using fire_coverages coverage_in_coverages build_search_query_both by blast

text \<open>With section \<open>programs\<close> no marker occurs and the suffix is appended.\<close>

theorem build_query_fire_coverages_witness:
  "''programs'' \<noteq> [] \<and> ''fire'' \<noteq> [] \<and> \<not> has_marker ''programs fire''
   \<and> build_search_query ''fire'' ''programs'' = ''programs fire insurance coverage''"
  using build_query_fire_coverages [of "''programs''" "''fire''"] programs_fire_no_marker
  by simp

section \<open>The response assembler's length\<close>

lemma length_str_nat_bound: "n < 10 ^ Suc k \<Longrightarrow> length (str_nat n) \<le> Suc k"
proof (induction k arbitrary: n)
  case 0
  then show ?case by (subst str_nat.simps) simp
next
  case (Suc k)
  show ?case
  proof (cases "n < 10")
    case True
    then show ?thesis by (subst str_nat.simps) simp
  next
    case False
    from Suc.prems have "n div 10 < 10 ^ Suc k" by (simp add: less_mult_imp_div_less mult.commute)
    then have "length (str_nat (n div 10)) \<le> Suc k" by (rule Suc.IH)
    with False show ?thesis by (subst str_nat.simps) simp
  qed
qed

lemma length_section_header: "length (section_header i) = 17 + length (str_nat (i + 1))"
  by (simp add: section_header_def)

lemma length_py_slice_to: "0 \<le> n \<Longrightarrow> int (length (py_slice_to s n)) \<le> n"
  by (simp add: py_slice_to_def)

lemma length_header: "length (header query) = 80 + length query"
  by (simp add: header_def)

lemma format_loop_budget:
  assumes "\<forall>j. i \<le> j \<and> j < i + length results \<longrightarrow> length (str_nat (j + 1)) \<le> D"
    and "format_loop max_chars i tot results \<noteq> []"
  shows "tot + int (length (py_join [newline, newline] (format_loop max_chars i tot results)))
           + 2 \<le> max_chars + int D"
  using assms
proof (induction results arbitrary: i tot)
  case Nil
  then show ?case by simp
next
  case (Cons doc rest)
  define content where "content = strip (page_content doc)"
  define block where "block = section_header i @ content"
  define tot' where "tot' = tot + int (length block) + 2"
  have digits: "length (str_nat (i + 1)) \<le> D"
    using Cons.prems(1) by simp
  show ?case
  proof (cases "tot' > max_chars")
    case True
    define remaining where "remaining = max_chars - tot - 2"
    have loop: "format_loop max_chars i tot (doc # rest) =
        (if remaining > 100
         then [section_header i @ py_slice_to content (remaining - 20) @ ''...''] else [])"
      using True by (simp add: Let_def content_def block_def tot'_def remaining_def)
    with Cons.prems(2) have big: "remaining > 100" by (simp split: if_splits)
    then have "int (length (py_slice_to content (remaining - 20))) \<le> remaining - 20"
      by (intro length_py_slice_to) simp
    then show ?thesis
      unfolding loop using big digits by (simp add: length_section_header remaining_def)
  next
    case False
    define more where "more = format_loop max_chars (i + 1) tot' rest"
    have loop: "format_loop max_chars i tot (doc # rest) = block # more"
      using False by (simp add: Let_def content_def block_def tot'_def more_def)
    show ?thesis
    proof (cases more)
      case Nil
      then show ?thesis unfolding loop using False by (simp add: tot'_def)
    next
      case (Cons b bs)
      have "\<forall>j. i + 1 \<le> j \<and> j < i + 1 + length rest \<longrightarrow> length (str_nat (j + 1)) \<le> D"
        using Cons.prems(1) by simp
      moreover have "format_loop max_chars (i + 1) tot' rest \<noteq> []"
        using Cons by (simp add: more_def)
      ultimately have "tot' + int (length (py_join [newline, newline]
            (format_loop max_chars (i + 1) tot' rest))) + 2 \<le> max_chars + int D"
        by (rule Cons.IH)
      then have "tot' + int (length (py_join [newline, newline] (b # bs))) + 2
                   \<le> max_chars + int D"
        by (simp only: more_def [symmetric] Cons)
      then show ?thesis
        unfolding loop Cons by (simp add: tot'_def)
    qed
  qed
qed


lemma pow_2_63_le: "(2::nat) ^ 63 \<le> 10 ^ Suc 18"
  by simp

lemma section_digits:
  assumes "length results < 2 ^ 63" and "j < length results"
  shows "length (str_nat (j + 1)) \<le> 19"
proof -
  have "j + 1 < 10 ^ Suc 18" using assms pow_2_63_le by linarith
  then have "length (str_nat (j + 1)) \<le> Suc 18" by (rule length_str_nat_bound)
  then show ?thesis by simp
qed

text \<open>
  C3. For a non-empty list of results and \<open>max_chars\<close> of at least 100, the assembled
  response is no longer than \<open>max_chars\<close> plus the header plus the footer. A Python list
  holds fewer than \<open>2 ^ 63\<close> items, so a section number has at most 19 digits; the
  sections together then never exceed \<open>max_chars\<close>.
\<close>

theorem format_rag_results_length_bound:
  assumes "results \<noteq> []" and "100 \<le> max_chars" and "length results < 2 ^ 63"
  shows "int (length (format_rag_results results query max_chars))
           \<le> max_chars + int (length (header query))
              + int (length (footer (format_loop max_chars 0 (int (length (header query)))
                                       results) results))"
proof -
  define blocks where "blocks = format_loop max_chars 0 (int (length (header query))) results"
  have out: "format_rag_results results query max_chars =
               header query @ py_join [newline, newline] blocks @ footer blocks results"
    using assms(1) by (simp add: format_rag_results_def Let_def blocks_def)
  have body: "int (length (py_join [newline, newline] blocks)) \<le> max_chars"
  proof (cases "blocks = []")
    case True
    then show ?thesis using assms(2) by simp
  next
    case False
    have "\<forall>j. 0 \<le> j \<and> j < 0 + length results \<longrightarrow> length (str_nat (j + 1)) \<le> 19"
      using section_digits [OF assms(3)] by simp
    then have "int (length (header query))
                 + int (length (py_join [newline, newline]
                     (format_loop max_chars 0 (int (length (header query))) results))) + 2
               \<le> max_chars + int 19"
      using False unfolding blocks_def by (rule format_loop_budget)
    then show ?thesis by (simp add: blocks_def length_header)
  qed
  show ?thesis unfolding out blocks_def [symmetric] using body by simp
qed

lemma demo_format:
  "format_rag_results demo_index ''x'' 150 =
     header ''x'' @ ''--- Section 1 ---'' @ [newline] @ ''Excess liability programs.''
     @ [newline, newline] @ ''[Retrieved 1 relevant sections from 2 total matches]''"
  by (simp add: format_rag_results_def demo_index_def header_def footer_def section_header_def
      Let_def str_nat.simps string_eval)

text \<open>Two results and a budget of 150: one section fits, the output has 179 characters.\<close>

theorem format_rag_results_length_bound_witness:
  "demo_index \<noteq> [] \<and> (100::int) \<le> 150 \<and> length demo_index < 2 ^ 63
   \<and> length (format_rag_results demo_index ''x'' 150) = 179
   \<and> int (length (format_rag_results demo_index ''x'' 150))
        \<le> 150 + int (length (header ''x''))
           + int (length (footer (format_loop 150 0 (int (length (header ''x''))) demo_index)
                            demo_index))"
proof -
  have a: "demo_index \<noteq> []" and b: "length demo_index < 2 ^ 63"
    by (simp_all add: demo_index_def)
  have c: "(100::int) \<le> 150" by simp
  have d: "length (format_rag_results demo_index ''x'' 150) = 179"
    by (simp add: demo_format header_def)
  show ?thesis
    using a b c d format_rag_results_length_bound [OF a c b, of "''x''"] by simp
qed


section \<open>Empty query and section\<close>

text \<open>The builder itself does not return the default string for two empty inputs.\<close>

theorem build_query_empty_counterexample:
  "build_search_query [] [] \<noteq> ''excess specialty lines insurance coverage programs''"
  by (simp add: build_search_query_empty)

text \<open>
  C5, as amended. For an empty query and an empty section the builder returns the empty
  string, and the caller substitutes a fallback. On the default path (no \<open>file_path\<close>, an
  empty one or the default document, with the index built) the one search made uses the
  fixed string \<open>excess specialty lines insurance coverage programs\<close>, also when the two
  arguments are absent; on the custom-file path every search made uses
  \<open>information content\<close> instead.
\<close>

theorem empty_query_fallback:
  "build_search_query [] [] = []
   \<and> ((arg_file_path a = None \<or> arg_file_path a = Some []
         \<or> arg_file_path a = Some default_file_path)
        \<and> vector_store self = Some indexed
        \<and> (arg_query a = None \<or> arg_query a = Some [])
        \<and> (arg_section a = None \<or> arg_section a = Some [])
       \<longrightarrow> snd (provider_async_invoke w self a) =
             [Search (Prebuilt indexed) (arg_get (arg_k a) 4)
                ''excess specialty lines insurance coverage programs''])
   \<and> (arg_file_path a = Some p \<and> p \<noteq> [] \<and> p \<noteq> default_file_path
        \<and> (arg_query a = None \<or> arg_query a = Some [])
        \<and> (arg_section a = None \<or> arg_section a = Some [])
       \<longrightarrow> (\<forall>e \<in> set (snd (provider_async_invoke w self a)).
               \<forall>st k q. e = Search st k q \<longrightarrow> q = ''information content''))"
proof (intro conjI impI)
  show "build_search_query [] [] = []" by (rule build_search_query_empty)
next
  assume h: "(arg_file_path a = None \<or> arg_file_path a = Some []
         \<or> arg_file_path a = Some default_file_path)
        \<and> vector_store self = Some indexed
        \<and> (arg_query a = None \<or> arg_query a = Some [])
        \<and> (arg_section a = None \<or> arg_section a = Some [])"
  then have q: "arg_get (arg_query a) [] = []" and s: "arg_get (arg_section a) [] = []"
    by (auto simp add: arg_get_def)
  from h have "snd (provider_async_invoke w self a) =
           snd (default_body w indexed (arg_get (arg_query a) []) (arg_get (arg_section a) [])
                  (arg_get (arg_max_chars a) 4000) (arg_get (arg_k a) 4))"
    by (intro default_route_calls) auto
  then show "snd (provider_async_invoke w self a) =
             [Search (Prebuilt indexed) (arg_get (arg_k a) 4)
                ''excess specialty lines insurance coverage programs'']"
    by (simp add: q s default_body_calls build_search_query_empty)
next
  assume h: "arg_file_path a = Some p \<and> p \<noteq> [] \<and> p \<noteq> default_file_path
        \<and> (arg_query a = None \<or> arg_query a = Some [])
        \<and> (arg_section a = None \<or> arg_section a = Some [])"
  then have q: "arg_get (arg_query a) [] = []" and s: "arg_get (arg_section a) [] = []"
    by (auto simp add: arg_get_def)
  from h have r: "provider_async_invoke w self a =
      query_custom_file w p [] [] (arg_get (arg_max_chars a) 4000)"
    using custom_route [of a p w self] by (simp add: q s)
  show "\<forall>e \<in> set (snd (provider_async_invoke w self a)).
               \<forall>st k q. e = Search st k q \<longrightarrow> q = ''information content''"
    unfolding r custom_file_calls
    by (auto simp add: query_custom_body_def Let_def build_search_query_empty
        split: sum.splits option.splits if_splits)
qed


text \<open>Both fallbacks, on the default index and on the custom file \<open>notes.txt\<close>.\<close>

theorem empty_query_fallback_witness:
  "arg_file_path no_args = None \<and> vector_store demo_provider = Some demo_index
   \<and> arg_query no_args = None \<and> arg_section no_args = None
   \<and> snd (provider_async_invoke demo_world demo_provider no_args) =
         [Search (Prebuilt demo_index) 4 ''excess specialty lines insurance coverage programs'']
   \<and> snd (provider_async_invoke demo_world demo_provider
              (no_args\<lparr>arg_file_path := Some ''notes.txt''\<rparr>)) =
         [BuildIndex demo_docs, Search (Throwaway demo_docs) 4 ''information content'']"
proof -
  have "snd (provider_async_invoke demo_world demo_provider no_args) =
         [Search (Prebuilt demo_index) 4 ''excess specialty lines insurance coverage programs'']"
    using empty_query_fallback [of no_args demo_provider demo_index demo_world]
    by (simp add: no_args_def demo_provider_def arg_get_def)
  moreover have "snd (provider_async_invoke demo_world demo_provider
              (no_args\<lparr>arg_file_path := Some ''notes.txt''\<rparr>)) =
         [BuildIndex demo_docs, Search (Throwaway demo_docs) 4 ''information content'']"
    by (simp add: custom_route default_file_path_def custom_file_calls demo_custom_calls
        arg_get_def no_args_def build_search_query_empty)
  ultimately show ?thesis by (simp add: no_args_def demo_provider_def)
qed

section \<open>No results\<close>

text \<open>For the query \<open>x\<close> the assembler's sentence does not mention \<open>x\<close>.\<close>

theorem assemble_empty_counterexample:
  "format_rag_results [] ''x'' 4000 = ''No relevant information found.''
   \<and> \<not> contains ''x'' (format_rag_results [] ''x'' 4000)"
  by (simp add: format_rag_results_def)

text \<open>
  C6, as amended. On an empty result list the assembler returns the fixed sentence
  \<open>No relevant information found.\<close>, whatever the query and \<open>max_chars\<close>; it does not
  mention the query. The sentence that does is the entry point's: on the default path,
  when the search returns nothing, it returns \<open>No relevant information found for query:\<close>
  followed by the search string in quotes, and \<open>max_chars\<close> plays no part in it.
\<close>

theorem no_results_sentences:
  "format_rag_results [] query max_chars = ''No relevant information found.''
   \<and> ((arg_file_path a = None \<or> arg_file_path a = Some []
         \<or> arg_file_path a = Some default_file_path)
        \<and> vector_store self = Some indexed
        \<and> search_query =
            (if build_search_query (arg_get (arg_query a) []) (arg_get (arg_section a) []) = []
             then ''excess specialty lines insurance coverage programs''
             else build_search_query (arg_get (arg_query a) []) (arg_get (arg_section a) []))
        \<and> search w (Prebuilt indexed) (arg_get (arg_k a) 4) search_query = Inr []
       \<longrightarrow> fst (provider_async_invoke w self a) =
             Inr (''No relevant information found for query: '' @ [apostrophe] @ search_query
                  @ [apostrophe]))"
proof (intro conjI impI)
  show "format_rag_results [] query max_chars = ''No relevant information found.''"
    by (simp add: format_rag_results_def)
next
  assume h: "(arg_file_path a = None \<or> arg_file_path a = Some []
         \<or> arg_file_path a = Some default_file_path)
        \<and> vector_store self = Some indexed
        \<and> search_query =
            (if build_search_query (arg_get (arg_query a) []) (arg_get (arg_section a) []) = []
             then ''excess specialty lines insurance coverage programs''
             else build_search_query (arg_get (arg_query a) []) (arg_get (arg_section a) []))
        \<and> search w (Prebuilt indexed) (arg_get (arg_k a) 4) search_query = Inr []"
  then have route: "provider_async_invoke w self a =
           (case default_body w indexed (arg_get (arg_query a) []) (arg_get (arg_section a) [])
                   (arg_get (arg_max_chars a) 4000) (arg_get (arg_k a) 4) of
              (Inl e, calls) \<Rightarrow> (Inr (''Error retrieving information: '' @ exn_str e), calls)
            | (Inr text, calls) \<Rightarrow> (Inr text, calls))"
    by (intro default_route) auto
  from h have sq: "search_query =
            (if build_search_query (arg_get (arg_query a) []) (arg_get (arg_section a) []) = []
             then ''excess specialty lines insurance coverage programs''
             else build_search_query (arg_get (arg_query a) []) (arg_get (arg_section a) []))"
    and found: "search w (Prebuilt indexed) (arg_get (arg_k a) 4) search_query = Inr []"
    by blast+
  have "default_body w indexed (arg_get (arg_query a) []) (arg_get (arg_section a) [])
                   (arg_get (arg_max_chars a) 4000) (arg_get (arg_k a) 4) =
        (Inr (''No relevant information found for query: '' @ [apostrophe] @ search_query
              @ [apostrophe]),
         [Search (Prebuilt indexed) (arg_get (arg_k a) 4) search_query])"
    unfolding default_body_def Let_def sq [symmetric] by (simp add: found)
  then show "fst (provider_async_invoke w self a) =
             Inr (''No relevant information found for query: '' @ [apostrophe] @ search_query
                  @ [apostrophe])"
    by (simp add: route)
qed

text \<open>The query \<open>fire\<close> against a retriever that finds nothing.\<close>

theorem no_results_sentences_witness:
  "format_rag_results [] ''x'' 50 = ''No relevant information found.''
   \<and> arg_file_path (no_args\<lparr>arg_query := Some ''fire''\<rparr>) = None
   \<and> vector_store demo_provider = Some demo_index
   \<and> search empty_world (Prebuilt demo_index) 4 ''fire insurance coverage'' = Inr []
   \<and> fst (provider_async_invoke empty_world demo_provider (no_args\<lparr>arg_query := Some ''fire''\<rparr>))
       = Inr (''No relevant information found for query: '' @ [apostrophe]
              @ ''fire insurance coverage'' @ [apostrophe])"
  using no_results_sentences [of "''x''" 50 "no_args\<lparr>arg_query := Some ''fire''\<rparr>"
      demo_provider demo_index "''fire insurance coverage''" empty_world]
  by (simp add: no_args_def demo_provider_def arg_get_def fire_query empty_world_def)

section \<open>Choosing between the pre-built index and a throwaway index\<close>





section \<open>Lemmas about the quote tool\<close>




lemma parse_amount_other:
  "\<not> isinstance_int v \<Longrightarrow> \<not> isinstance_str v \<Longrightarrow> parse_amount v dflt = Inr (PInt dflt)"
  by (cases v) (simp_all add: parse_amount_def)


lemma starts_with_append: "starts_with p (p @ rest)"
  by (induction p) simp_all

lemma error_text_intro: "error_text (cross_mark @ '' Error'' @ rest)"
  using starts_with_append [of "cross_mark @ '' Error''" rest]
  by (simp add: error_text_def)

lemma quote_handler:
  "quote_body m path a = (Inl (Exn c msg), calls) \<Longrightarrow>
   quote_async_invoke m path a =
     (if c = ImportError
      then (Inr (cross_mark @ '' Error: MCP client not available. ''
                 @ ''Please install langchain-mcp-adapters.''), calls)
      else (Inr (cross_mark @ '' Error generating quote: '' @ msg @ [newline, newline]
                 @ ''Please ensure the MCP quote server is configured correctly.''), calls))"
  by (simp add: quote_async_invoke_def)

lemma quote_handler_text:
  assumes "quote_body m path a = (Inl e, calls)"
  shows "\<exists>text. quote_async_invoke m path a = (Inr text, calls) \<and> error_text text"
proof -
  obtain c msg where e: "e = Exn c msg" by (cases e)
  have 1: "error_text (cross_mark @ '' Error: MCP client not available. ''
                 @ ''Please install langchain-mcp-adapters.'')"
    using error_text_intro [of "'': MCP client not available. Please install langchain-mcp-adapters.''"]
    by simp
  have 2: "error_text (cross_mark @ '' Error generating quote: '' @ msg @ [newline, newline]
                 @ ''Please ensure the MCP quote server is configured correctly.'')"
    using error_text_intro [of "'' generating quote: '' @ msg @ [newline, newline]
                 @ ''Please ensure the MCP quote server is configured correctly.''"]
    by simp
  show ?thesis
    using quote_handler [of m path a c msg calls] assms e 1 2 by auto
qed

lemma quote_return:
  "quote_body m path a = (Inr text, calls) \<Longrightarrow> quote_async_invoke m path a = (Inr text, calls)"
  by (simp add: quote_async_invoke_def)

lemma quote_body_reached:
  assumes "import_client m = None" and "missing_params a = []" and "new_client m path = None"
    and "get_tools m = Inr tools" and "find is_quote_tool tools = Some t"
  shows "quote_body m path a =
           (case build_quote_request m a of
              Inl e \<Rightarrow> (Inl e, [NewClient path, GetTools])
            | Inr request \<Rightarrow>
                (ainvoke m t request, [NewClient path, GetTools, ToolInvoke t request]))"
proof -
  from assms(5) have "tools \<noteq> []" by auto
  with assms show ?thesis by (simp add: quote_body_def)
qed

lemma quote_body_missing:
  assumes "import_client m = None" and "missing_params a \<noteq> []"
  shows "quote_body m path a =
           (Inr (cross_mark @ '' Error: Missing required parameters: ''
                 @ py_join '', '' (missing_params a)), [])"
  using assms by (simp add: quote_body_def)






lemma error_text_unavailable:
  "error_text (cross_mark @ '' Error: MCP client not available. ''
                 @ ''Please install langchain-mcp-adapters.'')"
  using error_text_intro [of "'': MCP client not available. Please install langchain-mcp-adapters.''"]
  by simp

section \<open>Monetary parsing\<close>



lemma demo_mcp_tool: "find is_quote_tool [''health_check'', ''create_quote''] = Some ''create_quote''"
  by (simp add: is_quote_tool_def string_eval)




lemma missing_params_absent:
  "missing_params a =
     filter (\<lambda>p. case a p of None \<Rightarrow> True | Some v \<Rightarrow> \<not> truthy v) required_params"
proof -
  have "(\<not> truthy (dict_get a p)) = (case a p of None \<Rightarrow> True | Some v \<Rightarrow> \<not> truthy v)" for p
    by (simp add: dict_get_def split: option.splits)
  then show ?thesis by (simp add: missing_params_def)
qed

section \<open>Missing required inputs\<close>

text \<open>A request where only \<open>location\<close> is absent, and \<open>coverage_limit\<close> is present with
  the value 0: the message lists both.\<close>

theorem missing_fields_counterexample:
  "(bakery(''coverage_limit'' \<mapsto> PInt 0, ''location'' := None)) ''coverage_limit''
     = Some (PInt 0)
   \<and> quote_async_invoke demo_mcp demo_path
        (bakery(''coverage_limit'' \<mapsto> PInt 0, ''location'' := None))
       = (Inr (cross_mark @ '' Error: Missing required parameters: coverage_limit, location''),
          [])"
proof -
  have "missing_params (bakery(''coverage_limit'' \<mapsto> PInt 0, ''location'' := None))
          = [''coverage_limit'', ''location'']"
    by (simp add: missing_params_def required_params_def dict_get_def bakery_def)
  then have "quote_body demo_mcp demo_path
               (bakery(''coverage_limit'' \<mapsto> PInt 0, ''location'' := None))
             = (Inr (cross_mark @ '' Error: Missing required parameters: ''
                     @ py_join '', '' [''coverage_limit'', ''location'']), [])"
    using quote_body_missing [of demo_mcp
        "bakery(''coverage_limit'' \<mapsto> PInt 0, ''location'' := None)" demo_path]
    by (simp add: demo_mcp_def)
  then show ?thesis by (simp add: quote_return)
qed

text \<open>
  C8, as amended. Provided the client library imports: if a required input is absent, or
  present with a value Python counts as false (\<open>None\<close>, \<open>False\<close>, 0, 0.0, the empty
  string), the tool returns the error message that lists exactly the required inputs that
  are absent or false, in the order of the list of required inputs, and makes no call to
  the client library: no client is constructed and no connection is attempted.
\<close>

theorem missing_required_inputs_reported:
  assumes "import_client m = None" and "param \<in> set required_params"
    and "a param = None \<or> (\<exists>v. a param = Some v \<and> \<not> truthy v)"
  shows "quote_async_invoke m path a =
           (Inr (cross_mark @ '' Error: Missing required parameters: ''
                 @ py_join '', '' (missing_params a)), [])
         \<and> missing_params a =
             filter (\<lambda>p. case a p of None \<Rightarrow> True | Some v \<Rightarrow> \<not> truthy v) required_params
         \<and> param \<in> set (missing_params a)"
proof -
  have listed: "param \<in> set (missing_params a)"
    using assms(2,3) by (auto simp add: missing_params_absent)
  then have "missing_params a \<noteq> []" by auto
  with assms(1) have "quote_body m path a =
           (Inr (cross_mark @ '' Error: Missing required parameters: ''
                 @ py_join '', '' (missing_params a)), [])"
    by (rule quote_body_missing)
  then have "quote_async_invoke m path a =
           (Inr (cross_mark @ '' Error: Missing required parameters: ''
                 @ py_join '', '' (missing_params a)), [])"
    by (rule quote_return)
  with listed show ?thesis using missing_params_absent by blast
qed

text \<open>The request without \<open>location\<close>.\<close>

theorem missing_required_inputs_reported_witness:
  "import_client demo_mcp = None \<and> ''location'' \<in> set required_params
   \<and> (bakery(''location'' := None)) ''location'' = None
   \<and> quote_async_invoke demo_mcp demo_path (bakery(''location'' := None))
       = (Inr (cross_mark @ '' Error: Missing required parameters: location''), [])"
proof -
  have a: "import_client demo_mcp = None" by (simp add: demo_mcp_def)
  have b: "''location'' \<in> set required_params" by (simp add: required_params_def)
  have d: "missing_params (bakery(''location'' := None)) = [''location'']"
    by (simp add: missing_params_def required_params_def dict_get_def bakery_def)
  show ?thesis
    using missing_required_inputs_reported [where m = demo_mcp and param = "''location''"
        and a = "bakery(''location'' := None)" and path = demo_path] a b d
    by simp
qed

section \<open>Amounts that are neither integers nor strings\<close>

text \<open>
  C9. For a value that is neither an integer nor a string the amount parser returns the
  default it is given and raises nothing. In the tool, a coverage limit and a deductible
  of that kind that pass the check of required inputs give a request with policy limit
  and coverage limit 1000000 and deductible 1000, which is sent to the quote tool as it
  is: nothing about the replaced values is reported.
\<close>

theorem parse_amount_silent_default:
  "(\<not> isinstance_int v \<and> \<not> isinstance_str v \<longrightarrow> parse_amount v dflt = Inr (PInt dflt))
   \<and> (import_client m = None \<and> missing_params a = [] \<and> new_client m path = None
       \<and> get_tools m = Inr tools \<and> find is_quote_tool tools = Some t
       \<and> py_int (dict_get_default a ''square_footage'' (PInt DEFAULT_SQUARE_FOOTAGE))
           = Inr footage
       \<and> \<not> isinstance_int (dict_get a ''coverage_limit'')
       \<and> \<not> isinstance_str (dict_get a ''coverage_limit'')
       \<and> \<not> isinstance_int (dict_get a ''deductible'')
       \<and> \<not> isinstance_str (dict_get a ''deductible'')
      \<longrightarrow> (\<exists>request. build_quote_request m a = Inr request
             \<and> policy_limit request = PInt 1000000
             \<and> coverage_limit request = PInt 1000000
             \<and> deductible request = PInt 1000
             \<and> quote_body m path a =
                 (ainvoke m t request, [NewClient path, GetTools, ToolInvoke t request])))"
proof (intro conjI impI)
  assume "\<not> isinstance_int v \<and> \<not> isinstance_str v"
  then show "parse_amount v dflt = Inr (PInt dflt)"
    by (simp add: parse_amount_other)
next
  assume h: "import_client m = None \<and> missing_params a = [] \<and> new_client m path = None
       \<and> get_tools m = Inr tools \<and> find is_quote_tool tools = Some t
       \<and> py_int (dict_get_default a ''square_footage'' (PInt DEFAULT_SQUARE_FOOTAGE))
           = Inr footage
       \<and> \<not> isinstance_int (dict_get a ''coverage_limit'')
       \<and> \<not> isinstance_str (dict_get a ''coverage_limit'')
       \<and> \<not> isinstance_int (dict_get a ''deductible'')
       \<and> \<not> isinstance_str (dict_get a ''deductible'')"
  then have lim: "parse_amount (dict_get a ''coverage_limit'') parse_amount_default
                    = Inr (PInt 1000000)"
    and ded: "parse_amount (dict_get a ''deductible'') DEFAULT_DEDUCTIBLE = Inr (PInt 1000)"
    by (simp_all add: parse_amount_other parse_amount_default_def DEFAULT_DEDUCTIBLE_def)
  from h have foot: "py_int (dict_get_default a ''square_footage'' (PInt DEFAULT_SQUARE_FOOTAGE))
           = Inr footage" by blast
  obtain request where built: "build_quote_request m a = Inr request"
    and fields: "policy_limit request = PInt 1000000" "coverage_limit request = PInt 1000000"
      "deductible request = PInt 1000"
    by (simp add: build_quote_request_def lim ded foot)
  from h have "quote_body m path a =
           (case build_quote_request m a of
              Inl e \<Rightarrow> (Inl e, [NewClient path, GetTools])
            | Inr request \<Rightarrow>
                (ainvoke m t request, [NewClient path, GetTools, ToolInvoke t request]))"
    by (intro quote_body_reached) blast+
  then have "quote_body m path a =
      (ainvoke m t request, [NewClient path, GetTools, ToolInvoke t request])"
    by (simp add: built)
  with built fields show "\<exists>request. build_quote_request m a = Inr request
             \<and> policy_limit request = PInt 1000000
             \<and> coverage_limit request = PInt 1000000
             \<and> deductible request = PInt 1000
             \<and> quote_body m path a =
                 (ainvoke m t request, [NewClient path, GetTools, ToolInvoke t request])"
    by blast
qed


lemma float_request:
  "build_quote_request demo_mcp
     (bakery(''coverage_limit'' \<mapsto> PFloat (Finite 5 19),
             ''deductible'' \<mapsto> PFloat (Finite 5 (- 1))))
   = Inr \<lparr>created_date = ''2026-01-01'', expiration_date = ''2027-01-01'',
          quote_status = ''Active'', address = PStr ''Oslo'',
          property_type = PStr ''Bakery'', square_footage = 10000,
          line_type = PStr ''General Liability'', policy_limit = PInt 1000000,
          deductible = PInt 1000, risk_type = ''General Business Risk'',
          location_reference = ''LOC-001'',
          risk_description = ''General Liability risk for Bakery operation'',
          coverage_type = PStr ''General Liability'', coverage_limit = PInt 1000000\<rparr>"
  by (simp add: build_quote_request_def dict_get_def dict_get_default_def bakery_def
      parse_amount_def parse_amount_default_def DEFAULT_DEDUCTIBLE_def
      DEFAULT_SQUARE_FOOTAGE_def RISK_TYPE_def LOCATION_REFERENCE_def demo_mcp_def)

text \<open>A coverage limit of 2621440.0 and a deductible of 2.5: the request goes out with
  1000000 and 1000.\<close>

theorem parse_amount_silent_default_witness:
  "\<not> isinstance_int (PFloat (Finite 5 19)) \<and> \<not> isinstance_str (PFloat (Finite 5 19))
   \<and> parse_amount (PFloat (Finite 5 19)) 1000000 = Inr (PInt 1000000)
   \<and> missing_params (bakery(''coverage_limit'' \<mapsto> PFloat (Finite 5 19),
                              ''deductible'' \<mapsto> PFloat (Finite 5 (- 1)))) = []
   \<and> quote_async_invoke demo_mcp demo_path
        (bakery(''coverage_limit'' \<mapsto> PFloat (Finite 5 19),
                ''deductible'' \<mapsto> PFloat (Finite 5 (- 1))))
       = (Inr ''quote Q-1 created'',
          [NewClient demo_path, GetTools,
           ToolInvoke ''create_quote''
             \<lparr>created_date = ''2026-01-01'', expiration_date = ''2027-01-01'',
              quote_status = ''Active'', address = PStr ''Oslo'',
              property_type = PStr ''Bakery'', square_footage = 10000,
              line_type = PStr ''General Liability'', policy_limit = PInt 1000000,
              deductible = PInt 1000, risk_type = ''General Business Risk'',
              location_reference = ''LOC-001'',
              risk_description = ''General Liability risk for Bakery operation'',
              coverage_type = PStr ''General Liability'', coverage_limit = PInt 1000000\<rparr>])"
proof -
  let ?a = "bakery(''coverage_limit'' \<mapsto> PFloat (Finite 5 19),
                   ''deductible'' \<mapsto> PFloat (Finite 5 (- 1)))"
  have complete: "missing_params ?a = []"
    by (simp add: missing_params_def required_params_def dict_get_def bakery_def)
  have foot: "py_int (dict_get_default ?a ''square_footage'' (PInt DEFAULT_SQUARE_FOOTAGE))
                = Inr 10000"
    by (simp add: dict_get_default_def bakery_def DEFAULT_SQUARE_FOOTAGE_def)
  have vals: "dict_get ?a ''coverage_limit'' = PFloat (Finite 5 19)"
    "dict_get ?a ''deductible'' = PFloat (Finite 5 (- 1))"
    by (simp_all add: dict_get_def)
  from parse_amount_silent_default [of "PFloat (Finite 5 19)" 1000000 demo_mcp ?a demo_path
      "[''health_check'', ''create_quote'']" "''create_quote''" 10000]
  have default: "parse_amount (PFloat (Finite 5 19)) 1000000 = Inr (PInt 1000000)"
    and sent: "\<exists>request. build_quote_request demo_mcp ?a = Inr request
             \<and> policy_limit request = PInt 1000000
             \<and> coverage_limit request = PInt 1000000
             \<and> deductible request = PInt 1000
             \<and> quote_body demo_mcp demo_path ?a =
                 (ainvoke demo_mcp ''create_quote'' request,
                  [NewClient demo_path, GetTools, ToolInvoke ''create_quote'' request])"
    using complete foot vals demo_mcp_tool by (simp_all add: demo_mcp_def)
  from sent have "quote_body demo_mcp demo_path ?a =
      (Inr ''quote Q-1 created'',
       [NewClient demo_path, GetTools,
           ToolInvoke ''create_quote''
             \<lparr>created_date = ''2026-01-01'', expiration_date = ''2027-01-01'',
              quote_status = ''Active'', address = PStr ''Oslo'',
              property_type = PStr ''Bakery'', square_footage = 10000,
              line_type = PStr ''General Liability'', policy_limit = PInt 1000000,
              deductible = PInt 1000, risk_type = ''General Business Risk'',
              location_reference = ''LOC-001'',
              risk_description = ''General Liability risk for Bakery operation'',
              coverage_type = PStr ''General Liability'', coverage_limit = PInt 1000000\<rparr>])"
    unfolding float_request by (auto simp add: demo_mcp_def)
  then show ?thesis
    using default complete by (simp add: quote_return)
qed

lemma provider_returns: "\<exists>reply. fst (provider_async_invoke w self a) = Inr reply"
  by (auto simp add: provider_async_invoke_def query_custom_file_def Let_def
      split: prod.splits sum.splits option.splits)

lemma quote_returns: "\<exists>reply. fst (quote_async_invoke m path qa) = Inr reply"
proof (cases "quote_body m path qa")
  case (Pair r calls)
  show ?thesis
  proof (cases r)
    case (Inl e)
    with Pair quote_handler_text [of m path qa e calls] show ?thesis by auto
  next
    case (Inr reply)
    with Pair quote_return [of m path qa reply calls] show ?thesis by auto
  qed
qed

section \<open>No exception leaves an entry point\<close>

text \<open>
  C4. For every argument mapping and whatever the collaborators do, each entry point
  returns a string: the result is never a raised exception. Each failure is turned into
  a message that names it: an index that was never built, a fault while searching the
  pre-built index, a fault on the custom-file path, and any fault of the quote tool's
  body, whose message opens with the cross mark and \<open>Error\<close> and, unless the fault is an
  import error, carries the fault's text.
\<close>

theorem entry_points_return_strings:
  "(\<exists>reply. fst (provider_async_invoke w self a) = Inr reply)
   \<and> (\<exists>reply. fst (quote_async_invoke m path qa) = Inr reply)
   \<and> ((arg_file_path a = None \<or> arg_file_path a = Some []
        \<or> arg_file_path a = Some default_file_path) \<and> vector_store self = None
       \<longrightarrow> provider_async_invoke w self a =
             (Inr (''Error: Vector store not initialized. Please check the ''
                   @ ''excess_specialty_lines_info.txt file exists.''), []))
   \<and> ((arg_file_path a = None \<or> arg_file_path a = Some []
        \<or> arg_file_path a = Some default_file_path) \<and> vector_store self = Some indexed
       \<and> fst (default_body w indexed (arg_get (arg_query a) []) (arg_get (arg_section a) [])
                 (arg_get (arg_max_chars a) 4000) (arg_get (arg_k a) 4)) = Inl e
       \<longrightarrow> fst (provider_async_invoke w self a) =
             Inr (''Error retrieving information: '' @ exn_str e))
   \<and> (arg_file_path a = Some p \<and> p \<noteq> [] \<and> p \<noteq> default_file_path
       \<and> fst (query_custom_body w p (arg_get (arg_query a) []) (arg_get (arg_section a) [])
                 (arg_get (arg_max_chars a) 4000)) = Inl e
       \<longrightarrow> fst (provider_async_invoke w self a) = Inr (''Error reading file: '' @ exn_str e))
   \<and> (fst (quote_body m path qa) = Inl (Exn c msg)
       \<longrightarrow> error_text (cross_mark @ '' Error: MCP client not available. ''
                        @ ''Please install langchain-mcp-adapters.'')
           \<and> error_text (cross_mark @ '' Error generating quote: '' @ msg @ [newline, newline]
                @ ''Please ensure the MCP quote server is configured correctly.'')
           \<and> fst (quote_async_invoke m path qa) =
               Inr (if c = ImportError
                    then cross_mark @ '' Error: MCP client not available. ''
                         @ ''Please install langchain-mcp-adapters.''
                    else cross_mark @ '' Error generating quote: '' @ msg @ [newline, newline]
                         @ ''Please ensure the MCP quote server is configured correctly.''))"
proof (intro conjI impI)
  show "\<exists>reply. fst (provider_async_invoke w self a) = Inr reply"
    by (rule provider_returns)
  show "\<exists>reply. fst (quote_async_invoke m path qa) = Inr reply"
    by (rule quote_returns)
next
  assume "(arg_file_path a = None \<or> arg_file_path a = Some []
        \<or> arg_file_path a = Some default_file_path) \<and> vector_store self = None"
  then show "provider_async_invoke w self a =
             (Inr (''Error: Vector store not initialized. Please check the ''
                   @ ''excess_specialty_lines_info.txt file exists.''), [])"
    by (auto simp add: provider_async_invoke_def)
next
  assume h: "(arg_file_path a = None \<or> arg_file_path a = Some []
        \<or> arg_file_path a = Some default_file_path) \<and> vector_store self = Some indexed
       \<and> fst (default_body w indexed (arg_get (arg_query a) []) (arg_get (arg_section a) [])
                 (arg_get (arg_max_chars a) 4000) (arg_get (arg_k a) 4)) = Inl e"
  then have "provider_async_invoke w self a =
           (case default_body w indexed (arg_get (arg_query a) []) (arg_get (arg_section a) [])
                   (arg_get (arg_max_chars a) 4000) (arg_get (arg_k a) 4) of
              (Inl e, calls) \<Rightarrow> (Inr (''Error retrieving information: '' @ exn_str e), calls)
            | (Inr reply, calls) \<Rightarrow> (Inr reply, calls))"
    by (intro default_route) blast+
  with h show "fst (provider_async_invoke w self a) =
             Inr (''Error retrieving information: '' @ exn_str e)"
    by (auto split: prod.splits sum.splits)
next
  assume h: "arg_file_path a = Some p \<and> p \<noteq> [] \<and> p \<noteq> default_file_path
       \<and> fst (query_custom_body w p (arg_get (arg_query a) []) (arg_get (arg_section a) [])
                 (arg_get (arg_max_chars a) 4000)) = Inl e"
  then have "provider_async_invoke w self a =
           query_custom_file w p (arg_get (arg_query a) []) (arg_get (arg_section a) [])
             (arg_get (arg_max_chars a) 4000)"
    by (intro custom_route) blast+
  with h show "fst (provider_async_invoke w self a) = Inr (''Error reading file: '' @ exn_str e)"
    by (auto simp add: query_custom_file_def split: prod.splits sum.splits)
next
  show "error_text (cross_mark @ '' Error: MCP client not available. ''
                        @ ''Please install langchain-mcp-adapters.'')"
    by (rule error_text_unavailable)
  show "error_text (cross_mark @ '' Error generating quote: '' @ msg @ [newline, newline]
                @ ''Please ensure the MCP quote server is configured correctly.'')"
    using error_text_intro [of "'' generating quote: '' @ msg @ [newline, newline]
                 @ ''Please ensure the MCP quote server is configured correctly.''"]
    by simp
next
  assume "fst (quote_body m path qa) = Inl (Exn c msg)"
  then obtain calls where "quote_body m path qa = (Inl (Exn c msg), calls)"
    by (cases "quote_body m path qa") simp
  then show "fst (quote_async_invoke m path qa) =
               Inr (if c = ImportError
                    then cross_mark @ '' Error: MCP client not available. ''
                         @ ''Please install langchain-mcp-adapters.''
                    else cross_mark @ '' Error generating quote: '' @ msg @ [newline, newline]
                         @ ''Please ensure the MCP quote server is configured correctly.'')"
    by (simp add: quote_handler)
qed

text \<open>A retriever that fails on both paths, an index that was never built, and a quote
  server that cannot be reached.\<close>

theorem entry_points_return_strings_witness:
  "fst (provider_async_invoke failing_world demo_provider no_args)
     = Inr ''Error retrieving information: embedding service unreachable''
   \<and> fst (provider_async_invoke failing_world demo_provider
            (no_args\<lparr>arg_file_path := Some ''notes.txt''\<rparr>))
     = Inr ''Error reading file: embedding service unreachable''
   \<and> provider_async_invoke demo_world \<lparr>vector_store = None\<rparr> no_args
     = (Inr ''Error: Vector store not initialized. Please check the excess_specialty_lines_info.txt file exists.'', [])
   \<and> fst (quote_async_invoke offline_mcp demo_path bakery)
     = Inr (cross_mark @ '' Error generating quote: Connection closed'' @ [newline, newline]
            @ ''Please ensure the MCP quote server is configured correctly.'')"
proof -
  let ?e = "Exn OtherException ''embedding service unreachable''"
  have d: "fst (default_body failing_world demo_index [] [] 4000 4) = Inl ?e"
    by (simp add: default_body_def failing_world_def Let_def)
  have c: "fst (query_custom_body failing_world ''notes.txt'' [] [] 4000) = Inl ?e"
  proof (rule custom_body_search_fault [where fp = "''/app/notes.txt''"
        and content = demo_content and docs = demo_docs])
    show "search failing_world (Throwaway demo_docs) 4
           (if build_search_query [] [] = [] then ''information content''
            else build_search_query [] []) = Inl ?e"
      by (simp add: failing_world_def)
  qed (simp_all add: demo_file demo_docs_nonempty)
  have q: "fst (quote_body offline_mcp demo_path bakery)
             = Inl (Exn OtherException ''Connection closed'')"
    by (simp add: quote_body_def offline_mcp_def demo_mcp_def missing_params_def
        required_params_def dict_get_def bakery_def)
  have 1: "fst (provider_async_invoke failing_world demo_provider no_args)
     = Inr ''Error retrieving information: embedding service unreachable''"
    using entry_points_return_strings [of failing_world demo_provider no_args _ _ _ demo_index ?e]
      d by (simp add: no_args_def demo_provider_def arg_get_def)
  have 2: "fst (provider_async_invoke failing_world demo_provider
            (no_args\<lparr>arg_file_path := Some ''notes.txt''\<rparr>))
     = Inr ''Error reading file: embedding service unreachable''"
    using entry_points_return_strings [of failing_world demo_provider
        "no_args\<lparr>arg_file_path := Some ''notes.txt''\<rparr>" _ _ _ _ ?e "''notes.txt''"]
      c by (simp add: no_args_def arg_get_def default_file_path_def)
  have 3: "provider_async_invoke demo_world \<lparr>vector_store = None\<rparr> no_args
     = (Inr ''Error: Vector store not initialized. Please check the excess_specialty_lines_info.txt file exists.'', [])"
    using entry_points_return_strings [of demo_world "\<lparr>vector_store = None\<rparr>" no_args]
    by (simp add: no_args_def)
  have 4: "fst (quote_async_invoke offline_mcp demo_path bakery)
     = Inr (cross_mark @ '' Error generating quote: Connection closed'' @ [newline, newline]
            @ ''Please ensure the MCP quote server is configured correctly.'')"
    using entry_points_return_strings [of _ _ _ offline_mcp demo_path bakery _ _ _
        OtherException "''Connection closed''"] q
    by simp
  show ?thesis using 1 2 3 4 by simp
qed


end
